theory Spec2Isabelle
  imports Complex_Main "HOL-Library.Word"
begin

unbundle bit_operations_syntax

section \<open>Game logic (the game-logic module, src/src/lib/game-contract-manager.ts from line 385)\<close>

text \<open>
  JavaScript numbers are modelled as \<^typ>\<open>real\<close>: every numeric field of the source has
  type \<open>number\<close>. The values the game logic produces (multiples of 0.5 for the combo,
  integers for score, lives and streak) are exact in IEEE doubles, so the idealisation does
  not change them. \<open>Date.now()\<close> is an explicit argument \<open>now\<close> of every function
  that reads the clock.
\<close>

datatype tapType = logo | glitch | gift | bomb | miss

record ActiveEffect =
  etype :: string
  duration :: real
  evalue :: "real option"
  startTime :: real

record Difficulty =
  level :: int
  fallSpeed :: real
  spawnRate :: real

record GameState =
  score :: real
  lives :: real
  timeLeft :: real
  combo :: real
  streak :: real
  gameStartTime :: real
  difficulty :: Difficulty
  activeEffects :: "ActiveEffect list"

record TapResult =
  rtype :: tapType
  points :: real
  newCombo :: real
  newStreak :: real
  livesLost :: real
  effect :: "ActiveEffect option"

subsection \<open>GAME_CONFIG\<close>

definition INITIAL_LIVES :: real where "INITIAL_LIVES = 5"
definition GAME_DURATION :: real where "GAME_DURATION = 120"
definition BASE_POINTS :: real where "BASE_POINTS = 10"
definition MAX_COMBO :: real where "MAX_COMBO = 5"
definition COMBO_INCREMENT :: real where "COMBO_INCREMENT = 1/2"
definition STREAK_FOR_COMBO :: real where "STREAK_FOR_COMBO = 5"
definition DIFFICULTY_RAMP_INTERVAL :: real where "DIFFICULTY_RAMP_INTERVAL = 30"
definition BASE_FALL_SPEED :: real where "BASE_FALL_SPEED = 100"
definition BASE_SPAWN_RATE :: real where "BASE_SPAWN_RATE = 3/2"
definition SPEED_INCREASE_FACTOR :: real where "SPEED_INCREASE_FACTOR = 13/10"
definition SPAWN_INCREASE_FACTOR :: real where "SPAWN_INCREASE_FACTOR = 12/10"

subsection \<open>Pure functions\<close>

definition createInitialGameState :: "real \<Rightarrow> GameState" where
  "createInitialGameState now =
     \<lparr> score = 0, lives = INITIAL_LIVES, timeLeft = GAME_DURATION, combo = 1, streak = 0,
       gameStartTime = now,
       difficulty = \<lparr> level = 0, fallSpeed = BASE_FALL_SPEED, spawnRate = BASE_SPAWN_RATE \<rparr>,
       activeEffects = [] \<rparr>"

definition calculatePoints :: "real \<Rightarrow> bool \<Rightarrow> real" where
  "calculatePoints cmb hasGoldenEffect =
     (let basePoints = BASE_POINTS * cmb
      in if hasGoldenEffect then basePoints * 3 else basePoints)"

definition updateCombo :: "real \<Rightarrow> real" where
  "updateCombo strk =
     (let comboLevel = \<lfloor>strk / STREAK_FOR_COMBO\<rfloor>;
          newCombo = 1 + (of_int comboLevel * COMBO_INCREMENT)
      in min newCombo MAX_COMBO)"

text \<open>The \<open>switch\<close> of \<open>createMagicCardEffect\<close>; unknown card names fall to the default.\<close>

definition createMagicCardEffect :: "real \<Rightarrow> string \<Rightarrow> ActiveEffect" where
  "createMagicCardEffect now cardType =
     (if cardType = ''time-freeze'' then
        \<lparr> etype = ''time-freeze'', duration = 5000, evalue = None, startTime = now \<rparr>
      else if cardType = ''slow-motion'' then
        \<lparr> etype = ''slow-motion'', duration = 7000, evalue = Some (1/2), startTime = now \<rparr>
      else if cardType = ''golden-monad'' then
        \<lparr> etype = ''golden-monad'', duration = 0, evalue = None, startTime = now \<rparr>
      else if cardType = ''extra-time'' then
        \<lparr> etype = ''extra-time'', duration = 0, evalue = Some 10, startTime = now \<rparr>
      else if cardType = ''logo-highlight'' then
        \<lparr> etype = ''logo-highlight'', duration = 5000, evalue = None, startTime = now \<rparr>
      else if cardType = ''bomb-trap'' then
        \<lparr> etype = ''bomb-trap'', duration = 0, evalue = Some (- 20), startTime = now \<rparr>
      else if cardType = ''shrink-ray'' then
        \<lparr> etype = ''shrink-ray'', duration = 4000, evalue = Some (1/2), startTime = now \<rparr>
      else if cardType = ''monad-swarm'' then
        \<lparr> etype = ''monad-swarm'', duration = 3000, evalue = None, startTime = now \<rparr>
      else if cardType = ''glitch-purge'' then
        \<lparr> etype = ''glitch-purge'', duration = 0, evalue = Some 5, startTime = now \<rparr>
      else
        \<lparr> etype = ''time-freeze'', duration = 5000, evalue = None, startTime = now \<rparr>)"

text \<open>
  \<open>giftCardType || 'time-freeze'\<close>: an absent argument and the empty string are both
  falsy and select the default card.
\<close>

definition cardOrDefault :: "string option \<Rightarrow> string" where
  "cardOrDefault giftCardType =
     (case giftCardType of
        None \<Rightarrow> ''time-freeze''
      | Some c \<Rightarrow> (if c = [] then ''time-freeze'' else c))"

definition processTap :: "real \<Rightarrow> GameState \<Rightarrow> tapType \<Rightarrow> string option \<Rightarrow> TapResult" where
  "processTap now state tp giftCardType =
     (let hasGoldenEffect = list_ex (\<lambda>e. etype e = ''golden-monad'') (activeEffects state)
      in case tp of
           logo \<Rightarrow>
             (let newStreak = streak state + 1;
                  newCombo = updateCombo newStreak;
                  pts = calculatePoints (combo state) hasGoldenEffect
              in \<lparr> rtype = logo, points = pts, newCombo = newCombo, newStreak = newStreak,
                   livesLost = 0, effect = None \<rparr>)
         | glitch \<Rightarrow>
             \<lparr> rtype = glitch, points = 0, newCombo = 1, newStreak = 0,
               livesLost = 0, effect = None \<rparr>
         | gift \<Rightarrow>
             (let eff = createMagicCardEffect now (cardOrDefault giftCardType)
              in \<lparr> rtype = gift, points = 0, newCombo = combo state, newStreak = streak state,
                   livesLost = 0, effect = Some eff \<rparr>)
         | bomb \<Rightarrow>
             \<lparr> rtype = bomb, points = 0, newCombo = 1, newStreak = 0,
               livesLost = 1, effect = None \<rparr>
         | miss \<Rightarrow>
             \<lparr> rtype = miss, points = 0, newCombo = 1, newStreak = 0,
               livesLost = 0, effect = None \<rparr>)"

text \<open>\<open>result.effect.value || 0\<close>: an absent value counts as 0.\<close>

definition valueOrZero :: "real option \<Rightarrow> real" where
  "valueOrZero v = (case v of None \<Rightarrow> 0 | Some r \<Rightarrow> r)"

definition applyTapResult :: "GameState \<Rightarrow> TapResult \<Rightarrow> GameState" where
  "applyTapResult state res =
     (let s1 = state\<lparr> score := max 0 (score state + points res) \<rparr>;
          s2 = s1\<lparr> combo := newCombo res, streak := newStreak res \<rparr>;
          s3 = s2\<lparr> lives := max 0 (lives s2 - livesLost res) \<rparr>
      in case effect res of
           None \<Rightarrow> s3
         | Some eff \<Rightarrow>
             if etype eff = ''extra-time'' then
               s3\<lparr> timeLeft := timeLeft s3 + valueOrZero (evalue eff) \<rparr>
             else if etype eff = ''bomb-trap'' then
               s3\<lparr> score := max 0 (score s3 + valueOrZero (evalue eff)) \<rparr>
             else if duration eff > 0 then
               s3\<lparr> activeEffects :=
                     filter (\<lambda>e. etype e \<noteq> etype eff) (activeEffects s3) @ [eff] \<rparr>
             else s3)"

text \<open>
  \<open>Math.pow(factor, level)\<close> with an integer \<open>level\<close> (negative when the clock reads
  before \<open>gameStartTime\<close>) is the integer power \<open>powi\<close>.
\<close>

definition updateDifficulty :: "real \<Rightarrow> Difficulty" where
  "updateDifficulty elapsedSeconds =
     (let lvl = \<lfloor>elapsedSeconds / DIFFICULTY_RAMP_INTERVAL\<rfloor>
      in \<lparr> level = lvl,
           fallSpeed = BASE_FALL_SPEED * (SPEED_INCREASE_FACTOR powi lvl),
           spawnRate = BASE_SPAWN_RATE * (SPAWN_INCREASE_FACTOR powi lvl) \<rparr>)"

definition updateActiveEffects :: "ActiveEffect list \<Rightarrow> real \<Rightarrow> ActiveEffect list" where
  "updateActiveEffects effects deltaTime =
     filter (\<lambda>e. duration e > 0 \<or> etype e = ''golden-monad'')
       (map (\<lambda>e. e\<lparr> duration := max 0 (duration e - deltaTime) \<rparr>) effects)"

definition updateGameState :: "real \<Rightarrow> GameState \<Rightarrow> real \<Rightarrow> GameState" where
  "updateGameState now state deltaTime =
     (let elapsedSeconds = (now - gameStartTime state) / 1000;
          isTimeFrozen = list_ex (\<lambda>e. etype e = ''time-freeze'') (activeEffects state)
      in state\<lparr> timeLeft := (if isTimeFrozen then timeLeft state
                              else max 0 (timeLeft state - deltaTime / 1000)),
                difficulty := updateDifficulty elapsedSeconds,
                activeEffects := updateActiveEffects (activeEffects state) deltaTime \<rparr>)"

definition isGameOver :: "GameState \<Rightarrow> bool" where
  "isGameOver state = (timeLeft state \<le> 0 \<or> lives state \<le> 0)"


section \<open>Deterministic RNG (src/src/lib/rng.ts)\<close>

text \<open>
  The generator state is a 32-bit pattern. JavaScript's \<open>^=\<close>, \<open><<\<close> and \<open>>>>\<close>
  act on the 32-bit pattern of their operands, so the state is a \<^typ>\<open>32 word\<close>;
  \<open>this.state >>> 0\<close> reads it unsigned (\<^const>\<open>unat\<close>).
\<close>

type_synonym XORShift32 = "32 word"

text \<open>
  \<open>new XORShift32(seed)\<close>: \<open>seed === 0 ? 1 : seed >>> 0\<close>. The seed is an integer
  number; \<open>>>> 0\<close> reduces it modulo \<open>2^32\<close>.
\<close>

definition XORShift32_new :: "int \<Rightarrow> XORShift32" where
  "XORShift32_new seed = (if seed = 0 then 1 else word_of_int seed)"

text \<open>\<open>next()\<close> returns the drawn value and the advanced state.\<close>

definition next_u32 :: "XORShift32 \<Rightarrow> nat \<times> XORShift32" where
  "next_u32 st =
     (let s1 = st XOR (push_bit 13 st);
          s2 = s1 XOR (drop_bit 17 s1);
          s3 = s2 XOR (push_bit 5 s2)
      in (unat s3, s3))"

definition nextFloat :: "XORShift32 \<Rightarrow> real \<times> XORShift32" where
  "nextFloat st = (let (v, st') = next_u32 st in (real v / 4294967296, st'))"

definition nextInt :: "real \<Rightarrow> real \<Rightarrow> XORShift32 \<Rightarrow> real \<times> XORShift32" where
  "nextInt lo hi st =
     (let (f, st') = nextFloat st in (of_int \<lfloor>f * (hi - lo)\<rfloor> + lo, st'))"

definition nextFloatRange :: "real \<Rightarrow> real \<Rightarrow> XORShift32 \<Rightarrow> real \<times> XORShift32" where
  "nextFloatRange lo hi st = (let (f, st') = nextFloat st in (f * (hi - lo) + lo, st'))"

datatype objectType = OLogo | OGlitch | OGift | OBomb

definition spawnX :: "real \<Rightarrow> real \<Rightarrow> XORShift32 \<Rightarrow> real \<times> XORShift32" where
  "spawnX screenW objectW st = nextInt (objectW / 2) (screenW - objectW / 2) st"

definition spawnDelay :: "real \<Rightarrow> real \<Rightarrow> XORShift32 \<Rightarrow> real \<times> XORShift32" where
  "spawnDelay baseDelay variation st =
     (let lo = baseDelay * (1 - variation);
          hi = baseDelay * (1 + variation)
      in nextFloatRange lo hi st)"

definition objectTypeDraw :: "XORShift32 \<Rightarrow> objectType \<times> XORShift32" where
  "objectTypeDraw st =
     (let (rand, st') = nextFloat st
      in (if rand < 55/100 then OLogo
          else if rand < 80/100 then OGlitch
          else if rand < 85/100 then OGift
          else OBomb, st'))"

definition cards :: "string list" where
  "cards = [''time-freeze'', ''slow-motion'', ''golden-monad'', ''extra-time'',
            ''logo-highlight'', ''bomb-trap'', ''shrink-ray'', ''monad-swarm'',
            ''glitch-purge'']"

text \<open>
  \<open>choice(cards)\<close> is \<open>cards[nextInt(0, cards.length)]\<close>. An index outside the array
  reads \<open>undefined\<close> in JavaScript; the model returns \<open>None\<close> there.
\<close>

definition magicCard :: "XORShift32 \<Rightarrow> string option \<times> XORShift32" where
  "magicCard st =
     (let (i, st') = nextInt 0 (real (length cards)) st
      in (if 0 \<le> i \<and> i < real (length cards) then Some (cards ! nat \<lfloor>i\<rfloor>) else None, st'))"

definition fallSpeedDraw :: "real \<Rightarrow> real \<Rightarrow> XORShift32 \<Rightarrow> real \<times> XORShift32" where
  "fallSpeedDraw baseSpeed variation st =
     (let lo = baseSpeed * (1 - variation);
          hi = baseSpeed * (1 + variation)
      in nextFloatRange lo hi st)"

text \<open>
  \<open>createSessionRNG\<close>: \<open>seed = ((seed << 5) - seed + charCode) & 0xffffffff\<close> for each
  UTF-16 unit of the session id. \<open><<\<close> and \<open>&\<close> convert their operand to a signed
  32-bit integer; the subtraction and the addition in between are exact on integers.
\<close>

definition toInt32 :: "int \<Rightarrow> int" where
  "toInt32 n = sint (word_of_int n :: 32 word)"

definition seedStep :: "int \<Rightarrow> char \<Rightarrow> int" where
  "seedStep seed c = toInt32 (toInt32 (toInt32 seed * 32) - seed + of_char c)"

definition createSessionRNG :: "string \<Rightarrow> int \<Rightarrow> XORShift32" where
  "createSessionRNG sessionId timestamp = XORShift32_new (foldl seedStep timestamp sessionId)"

section \<open>Physics (the physics module, src/unnamed/part_005 from line 421)\<close>

record Vector2 =
  vx :: real
  vy :: real

record AABB =
  box_x :: real
  box_y :: real
  width :: real
  height :: real

record GameObject =
  oid :: string
  otype :: objectType
  position :: Vector2
  velocity :: Vector2
  osize :: Vector2
  hitbox :: AABB
  spawnTime :: real
  isActive :: bool
  cardType :: "string option"

record SpawnConfig =
  screenWidth :: real
  screenHeight :: real
  objectSize :: Vector2
  cfg_fallSpeed :: real
  cfg_spawnRate :: real

definition createAABB :: "Vector2 \<Rightarrow> Vector2 \<Rightarrow> AABB" where
  "createAABB pos sz = \<lparr> box_x = vx pos, box_y = vy pos, width = vx sz, height = vy sz \<rparr>"

definition pointInAABB :: "Vector2 \<Rightarrow> AABB \<Rightarrow> bool" where
  "pointInAABB point aabb =
     (let left = box_x aabb - width aabb / 2;
          right = box_x aabb + width aabb / 2;
          top = box_y aabb - height aabb / 2;
          bottom = box_y aabb + height aabb / 2
      in vx point \<ge> left \<and> vx point \<le> right \<and> vy point \<ge> top \<and> vy point \<le> bottom)"

definition priorityOrder :: "objectType \<Rightarrow> int" where
  "priorityOrder t = (case t of OGift \<Rightarrow> 4 | OLogo \<Rightarrow> 3 | OGlitch \<Rightarrow> 2 | OBomb \<Rightarrow> 1)"

text \<open>
  \<open>findTappedObjects\<close>: \<open>filter\<close> allocates a fresh array \<open>tappedObjects\<close>; the in-place
  \<open>sort\<close> acts on that fresh array, with the comparator
  \<open>priorityOrder[b.type] - priorityOrder[a.type]\<close> (descending priority; the sort of
  ECMAScript is stable, as is \<^const>\<open>sort_key\<close>). The model returns the caller's array
  as it is after the call together with the returned array.
\<close>

definition findTappedObjects_run ::
  "GameObject list \<Rightarrow> Vector2 \<Rightarrow> GameObject list \<times> GameObject list" where
  "findTappedObjects_run objects tapPosition =
     (let tappedObjects = filter (\<lambda>obj. isActive obj \<and> pointInAABB tapPosition (hitbox obj)) objects
      in if length tappedObjects = 0 then (objects, [])
         else (let sorted = sort_key (\<lambda>obj. - priorityOrder (otype obj)) tappedObjects
               in (objects, [hd sorted])))"

definition findTappedObjects :: "GameObject list \<Rightarrow> Vector2 \<Rightarrow> GameObject list" where
  "findTappedObjects objects tapPosition = snd (findTappedObjects_run objects tapPosition)"


section \<open>Object pool (the object-pool module, src/src/lib/contracts-abi.ts from line 288)\<close>

text \<open>
  \<open>ObjectPool.getObject\<close> takes a free pooled object of the requested type (or a fresh
  one when none is free) and overwrites every field but \<open>type\<close>, which already is the
  requested type; it always returns exactly one object. The model builds that object.
  The id is \<open>type_Date.now()_Math.random()\<close>: it comes from the environment and is
  an argument here, as is the clock.
\<close>

definition getObject ::
  "real \<Rightarrow> string \<Rightarrow> objectType \<Rightarrow> Vector2 \<Rightarrow> Vector2 \<Rightarrow> real \<Rightarrow> string option \<Rightarrow> GameObject" where
  "getObject now ident tp pos sz fallSpd cardT =
     \<lparr> oid = ident, otype = tp, position = pos,
       velocity = \<lparr> vx = 0, vy = fallSpd \<rparr>, osize = sz,
       hitbox = createAABB pos sz, spawnTime = now, isActive = True, cardType = cardT \<rparr>"

section \<open>Spawn manager (src/unnamed/part_005, class SpawnManager)\<close>

text \<open>
  \<open>nextSpawnDelay\<close> is \<open>None\<close> when the source computes \<open>NaN\<close>
  (\<open>1000 / spawnRate\<close> with \<open>spawnRate = 0\<close> is \<open>Infinity\<close>, and the draw
  \<open>f * (Infinity - Infinity) + Infinity\<close> is \<open>NaN\<close>); a comparison with \<open>NaN\<close> is false.
\<close>

record SpawnManager =
  sm_rng :: XORShift32
  config :: SpawnConfig
  lastSpawnTime :: real
  nextSpawnDelay :: "real option"

definition calculateNextSpawn :: "SpawnManager \<Rightarrow> SpawnManager" where
  "calculateNextSpawn sm =
     (if cfg_spawnRate (config sm) = 0 then
        sm\<lparr> sm_rng := snd (nextFloat (sm_rng sm)), nextSpawnDelay := None \<rparr>
      else
        (let baseDelay = 1000 / cfg_spawnRate (config sm);
             (d, r) = spawnDelay baseDelay (3/10) (sm_rng sm)
         in sm\<lparr> sm_rng := r, nextSpawnDelay := Some d \<rparr>))"

definition SpawnManager_new :: "XORShift32 \<Rightarrow> SpawnConfig \<Rightarrow> SpawnManager" where
  "SpawnManager_new r cfg =
     calculateNextSpawn \<lparr> sm_rng = r, config = cfg, lastSpawnTime = 0, nextSpawnDelay = Some 0 \<rparr>"

text \<open>One iteration of the loop of \<open>spawnObjects\<close>; the draws are in the source's order.\<close>

definition spawnOne :: "real \<Rightarrow> string \<Rightarrow> SpawnConfig \<Rightarrow> XORShift32 \<Rightarrow> GameObject \<times> XORShift32" where
  "spawnOne now ident cfg r0 =
     (let (tp, r1) = objectTypeDraw r0;
          (sx, r2) = spawnX (screenWidth cfg) (vx (objectSize cfg)) r1;
          (fs, r3) = fallSpeedDraw (cfg_fallSpeed cfg) (2/10) r2;
          pos = \<lparr> vx = sx, vy = - vy (objectSize cfg) / 2 \<rparr>;
          (cardT, r4) = (if tp = OGift then magicCard r3 else (None, r3))
      in (getObject now ident tp pos (objectSize cfg) fs cardT, r4))"

text \<open>\<open>for (let i = 0; i < spawnCount; i++)\<close>, pushing one object per iteration.\<close>

function spawnLoop ::
  "real \<Rightarrow> (nat \<Rightarrow> string) \<Rightarrow> SpawnConfig \<Rightarrow> real \<Rightarrow> nat \<Rightarrow> XORShift32 \<Rightarrow> GameObject list
     \<Rightarrow> GameObject list \<times> XORShift32" where
  "spawnLoop now ids cfg spawnCount i r objects =
     (if real i < spawnCount then
        spawnLoop now ids cfg spawnCount (Suc i) (snd (spawnOne now (ids i) cfg r))
          (objects @ [fst (spawnOne now (ids i) cfg r)])
      else (objects, r))"
  by pat_completeness auto
termination
  by (relation "measure (\<lambda>(now, ids, cfg, spawnCount, i, r, objects). nat \<lceil>spawnCount\<rceil> - i)")
     (auto, linarith)

declare spawnLoop.simps [simp del]

definition spawnObjects ::
  "real \<Rightarrow> (nat \<Rightarrow> string) \<Rightarrow> real \<Rightarrow> SpawnManager \<Rightarrow> GameObject list \<times> SpawnManager" where
  "spawnObjects now ids spawnRateMultiplier sm =
     (let (spawnCount, r1) =
            (if spawnRateMultiplier > 2 then nextInt 2 4 (sm_rng sm) else (1, sm_rng sm));
          (objects, r2) = spawnLoop now ids (config sm) spawnCount 0 r1 []
      in (objects, sm\<lparr> sm_rng := r2 \<rparr>))"

text \<open>
  \<open>update(currentTime, modifiers)\<close> with \<open>modifiers = {spawnRate, timeFrozen}\<close>; it
  returns the new objects and the manager after the call.
\<close>

definition update ::
  "real \<Rightarrow> (nat \<Rightarrow> string) \<Rightarrow> real \<Rightarrow> real \<Rightarrow> bool \<Rightarrow> SpawnManager
     \<Rightarrow> GameObject list \<times> SpawnManager" where
  "update now ids currentTime spawnRateMod timeFrozen sm =
     (if timeFrozen then ([], sm)
      else
        (let timeSinceLastSpawn = currentTime - lastSpawnTime sm
         in if (case nextSpawnDelay sm of None \<Rightarrow> False | Some d \<Rightarrow> timeSinceLastSpawn \<ge> d)
            then (let (objects, sm1) = spawnObjects now ids spawnRateMod sm;
                      sm2 = sm1\<lparr> lastSpawnTime := currentTime \<rparr>
                  in (objects, calculateNextSpawn sm2))
            else ([], sm)))"

section \<open>Server replay (src/unnamed/part_013, POST /api/session/finish)\<close>

record TapEvent =
  timestamp :: real
  tap_position :: Vector2
  targetId :: "string option"
  tap_result :: tapType

text \<open>
  The loop over \<open>tapHistory\<close>: a tap whose timestamp lies outside
  \<open>[startTime, startTime + 120000]\<close> is skipped (\<open>continue\<close>); every other tap goes
  through \<open>processTap(gameState, tap.result)\<close> (no card argument) and
  \<open>applyTapResult\<close>. \<open>clock k\<close> is what \<open>Date.now()\<close> reads in iteration \<open>k\<close>.
  The counters of \<open>stats\<close> do not feed back into \<open>gameState\<close> and are left out.
\<close>

fun replayLoop :: "real \<Rightarrow> (nat \<Rightarrow> real) \<Rightarrow> nat \<Rightarrow> TapEvent list \<Rightarrow> GameState \<Rightarrow> GameState" where
  "replayLoop start clock k [] gameState = gameState"
| "replayLoop start clock k (tap # taps) gameState =
     (if timestamp tap < start \<or> timestamp tap > start + 120000 then
        replayLoop start clock (Suc k) taps gameState
      else
        (let tapResult = processTap (clock k) gameState (tap_result tap) None
         in replayLoop start clock (Suc k) taps (applyTapResult gameState tapResult)))"

text \<open>
  The re-simulation: the generator is rebuilt from \<open>(sessionId, session.startTime)\<close>,
  the state starts from \<open>createInitialGameState()\<close> and the history is folded.
\<close>

definition finishReplay ::
  "string \<Rightarrow> int \<Rightarrow> (nat \<Rightarrow> real) \<Rightarrow> TapEvent list \<Rightarrow> XORShift32 \<times> GameState" where
  "finishReplay sessionId sessionStart clock tapHistory =
     (let rng = createSessionRNG sessionId sessionStart;
          gameState = createInitialGameState (clock 0)
      in (rng, replayLoop (of_int sessionStart) clock 1 tapHistory gameState))"

section \<open>State hashes\<close>

subsection \<open>Number and JSON rendering\<close>

text \<open>
  \<open>JSON.stringify\<close> of an object whose values are numbers. Digits are rendered in base
  10; \<open>toString(16)\<close> uses the same digit table in base 16.
\<close>

definition digitChar :: "nat \<Rightarrow> char" where
  "digitChar d = ''0123456789abcdef'' ! d"

fun natToString :: "nat \<Rightarrow> nat \<Rightarrow> string" where
  "natToString base n =
     (if base < 2 \<or> n < base then [digitChar n]
      else natToString base (n div base) @ [digitChar (n mod base)])"

declare natToString.simps [simp del]

fun fracDigits :: "nat \<Rightarrow> real \<Rightarrow> string" where
  "fracDigits 0 f = []"
| "fracDigits (Suc k) f =
     (if f = 0 then []
      else digitChar (nat \<lfloor>f * 10\<rfloor>) # fracDigits k (f * 10 - of_int \<lfloor>f * 10\<rfloor>))"

text \<open>
  The decimal rendering of a number: sign, integer part, and the fractional digits when
  there are any. It is what \<open>Number.prototype.toString\<close> prints for the numbers these
  objects hold (integers, and decimal fractions with a few places, below \<open>10^21\<close>).
\<close>

definition numberToString :: "real \<Rightarrow> string" where
  "numberToString v =
     (let a = \<bar>v\<bar>; ip = \<lfloor>a\<rfloor>; fp = a - of_int ip
      in (if v < 0 then ''-'' else []) @ natToString 10 (nat ip) @
         (if fp = 0 then [] else ''.'' @ fracDigits 20 fp))"

fun jsonFields :: "(string \<times> real) list \<Rightarrow> string" where
  "jsonFields [] = []"
| "jsonFields [(k, v)] = [CHR 0x22] @ k @ [CHR 0x22] @ '':'' @ numberToString v"
| "jsonFields ((k, v) # kvs) =
     [CHR 0x22] @ k @ [CHR 0x22] @ '':'' @ numberToString v @ '','' @ jsonFields kvs"

definition jsonStringify :: "(string \<times> real) list \<Rightarrow> string" where
  "jsonStringify kvs = ''{'' @ jsonFields kvs @ ''}''"

subsection \<open>Client hash (src/src/lib/game-state.ts, GameStateManager.calculateStateHash)\<close>

text \<open>
  \<open>hash = ((hash << 5) - hash) + char; hash = hash & hash\<close> keeps \<open>hash\<close> a signed
  32-bit integer; on the 32-bit pattern this is \<open>push_bit 5 hash - hash + char\<close>.
  \<open>hash.toString(16)\<close> prints the signed value: a minus sign for a negative hash, then
  the magnitude in base 16.
\<close>

definition hashStep :: "32 word \<Rightarrow> char \<Rightarrow> 32 word" where
  "hashStep h c = (push_bit 5 h - h) + of_nat (of_char c)"

definition int32ToHex :: "32 word \<Rightarrow> string" where
  "int32ToHex h =
     (if sint h < 0 then ''-'' @ natToString 16 (nat (- sint h))
      else natToString 16 (nat (sint h)))"

definition calculateStateHash :: "GameState \<Rightarrow> string" where
  "calculateStateHash gameState =
     (let fields = [(''score'', score gameState),
                    (''lives'', lives gameState),
                    (''timeLeft'', of_int \<lfloor>timeLeft gameState\<rfloor>),
                    (''combo'', of_int \<lfloor>combo gameState * 10\<rfloor>),
                    (''streak'', streak gameState)];
          str = jsonStringify fields
      in int32ToHex (foldl hashStep 0 str))"

subsection \<open>SHA-256 (Node's \<open>crypto.createHash('sha256')\<close>, FIPS 180-4)\<close>

definition sha256_K :: "32 word list" where
  "sha256_K =
     [1116352408, 1899447441, 3049323471, 3921009573, 961987163, 1508970993, 2453635748,
      2870763221, 3624381080, 310598401, 607225278, 1426881987, 1925078388, 2162078206,
      2614888103, 3248222580, 3835390401, 4022224774, 264347078, 604807628, 770255983,
      1249150122, 1555081692, 1996064986, 2554220882, 2821834349, 2952996808, 3210313671,
      3336571891, 3584528711, 113926993, 338241895, 666307205, 773529912, 1294757372,
      1396182291, 1695183700, 1986661051, 2177026350, 2456956037, 2730485921, 2820302411,
      3259730800, 3345764771, 3516065817, 3600352804, 4094571909, 275423344, 430227734,
      506948616, 659060556, 883997877, 958139571, 1322822218, 1537002063, 1747873779,
      1955562222, 2024104815, 2227730452, 2361852424, 2428436474, 2756734187, 3204031479,
      3329325298]"

type_synonym sha256_state =
  "32 word \<times> 32 word \<times> 32 word \<times> 32 word \<times> 32 word \<times> 32 word \<times> 32 word \<times> 32 word"

definition sha256_H0 :: sha256_state where
  "sha256_H0 =
     (1779033703, 3144134277, 1013904242, 2773480762,
      1359893119, 2600822924, 528734635, 1541459225)"

definition rotr :: "nat \<Rightarrow> 32 word \<Rightarrow> 32 word" where
  "rotr n w = (drop_bit n w) OR (push_bit (32 - n) w)"

definition sha256_pad :: "8 word list \<Rightarrow> 8 word list" where
  "sha256_pad msg =
     (let l = length msg;
          k = (119 - l mod 64) mod 64;
          bits = (of_nat (8 * l) :: 64 word)
      in msg @ [128] @ replicate k 0 @
         map (\<lambda>i. ucast (drop_bit (8 * (7 - i)) bits)) [0..<8])"

definition beWord :: "8 word list \<Rightarrow> 32 word" where
  "beWord bs = foldl (\<lambda>acc b. push_bit 8 acc OR ucast b) 0 bs"

fun chunks :: "nat \<Rightarrow> nat \<Rightarrow> 'a list \<Rightarrow> 'a list list" where
  "chunks 0 len xs = []"
| "chunks (Suc n) len xs = take len xs # chunks n len (drop len xs)"

fun sha256_schedule :: "nat \<Rightarrow> 32 word list \<Rightarrow> 32 word list" where
  "sha256_schedule 0 w = w"
| "sha256_schedule (Suc n) w =
     (let i = length w;
          w15 = w ! (i - 15); w2 = w ! (i - 2);
          s0 = rotr 7 w15 XOR rotr 18 w15 XOR drop_bit 3 w15;
          s1 = rotr 17 w2 XOR rotr 19 w2 XOR drop_bit 10 w2
      in sha256_schedule n (w @ [w ! (i - 16) + s0 + w ! (i - 7) + s1]))"

definition sha256_round :: "sha256_state \<Rightarrow> 32 word \<times> 32 word \<Rightarrow> sha256_state" where
  "sha256_round st kw =
     (case st of (a, b, c, d, e, f, g, h) \<Rightarrow>
        (let S1 = rotr 6 e XOR rotr 11 e XOR rotr 25 e;
             ch = (e AND f) XOR (NOT e AND g);
             t1 = h + S1 + ch + fst kw + snd kw;
             S0 = rotr 2 a XOR rotr 13 a XOR rotr 22 a;
             maj = (a AND b) XOR (a AND c) XOR (b AND c);
             t2 = S0 + maj
         in (t1 + t2, a, b, c, d + t1, e, f, g)))"

definition sha256_block :: "sha256_state \<Rightarrow> 8 word list \<Rightarrow> sha256_state" where
  "sha256_block st blk =
     (let w = sha256_schedule 48 (map beWord (chunks 16 4 blk))
      in case (st, foldl sha256_round st (zip sha256_K w)) of
           ((a, b, c, d, e, f, g, h), (a', b', c', d', e', f', g', h')) \<Rightarrow>
             (a + a', b + b', c + c', d + d', e + e', f + f', g + g', h + h'))"

definition sha256 :: "8 word list \<Rightarrow> sha256_state" where
  "sha256 msg =
     (let padded = sha256_pad msg
      in foldl sha256_block sha256_H0 (chunks (length padded div 64) 64 padded))"

definition hex8 :: "32 word \<Rightarrow> string" where
  "hex8 w = map (\<lambda>i. digitChar (unat (drop_bit (4 * (7 - i)) w AND 15))) [0..<8]"

text \<open>\<open>.update(str).digest('hex')\<close> on the bytes of the (ASCII) string.\<close>

definition sha256_hex :: "string \<Rightarrow> string" where
  "sha256_hex str =
     (case sha256 (map (\<lambda>c. of_nat (of_char c)) str) of
        (a, b, c, d, e, f, g, h) \<Rightarrow>
          hex8 a @ hex8 b @ hex8 c @ hex8 d @ hex8 e @ hex8 f @ hex8 g @ hex8 h)"

subsection \<open>Server hash (src/src/lib/anti-cheat.ts, generateStateHash)\<close>

text \<open>\<open>Math.round(x)\<close> is \<open>floor(x + 0.5)\<close>, which is \<^const>\<open>round\<close>.\<close>

definition generateStateHash :: "GameState \<Rightarrow> real \<Rightarrow> string" where
  "generateStateHash gameState actionCount =
     (let stateData = [(''score'', of_int (round (score gameState))),
                       (''lives'', lives gameState),
                       (''combo'', of_int (round (combo gameState * 100)) / 100),
                       (''streak'', streak gameState),
                       (''actionCount'', actionCount)]
      in take 16 (sha256_hex (jsonStringify stateData)))"

section \<open>Scenarios and reachable states\<close>

text \<open>A tap event at time \<open>t\<close> and position \<open>(px, py)\<close> with result \<open>tp\<close>.\<close>

definition tapEvent :: "real \<Rightarrow> real \<Rightarrow> real \<Rightarrow> tapType \<Rightarrow> TapEvent" where
  "tapEvent t px py tp =
     \<lparr> timestamp = t, tap_position = \<lparr> vx = px, vy = py \<rparr>, targetId = None, tap_result = tp \<rparr>"

text \<open>
  The end-to-end scenario of the specification: session \<open>s1\<close> started at 1000000, six
  logo taps 200 ms apart, then a bomb tap.
\<close>

definition scenario :: "TapEvent list" where
  "scenario =
     [tapEvent 1000200 0 0 logo, tapEvent 1000400 0 0 logo, tapEvent 1000600 0 0 logo,
      tapEvent 1000800 0 0 logo, tapEvent 1001000 0 0 logo, tapEvent 1001200 0 0 logo,
      tapEvent 1001400 0 0 bomb]"

text \<open>
  The game states a session can be in: the initial state, closed under a tap
  (\<open>processTap\<close> followed by \<open>applyTapResult\<close>, as \<open>handleTap\<close> and both server
  routes do) and under the per-frame \<open>updateGameState\<close>, at any clock reading, tap type,
  card and frame time.
\<close>

inductive reachable :: "GameState \<Rightarrow> bool" where
  reach_init: "reachable (createInitialGameState now)"
| reach_tap: "reachable s \<Longrightarrow> reachable (applyTapResult s (processTap now s tp c))"
| reach_tick: "reachable s \<Longrightarrow> reachable (updateGameState now s dt)"

text \<open>
  Three live objects spawned on the same spot, in list order bomb, logo, gift: their
  60 by 60 hitboxes around \<open>(100, 100)\<close> overlap.
\<close>

definition overlapping :: "GameObject list" where
  "overlapping =
     [getObject 0 ''bomb_1'' OBomb \<lparr>vx = 100, vy = 100\<rparr> \<lparr>vx = 60, vy = 60\<rparr> 100 None,
      getObject 0 ''logo_1'' OLogo \<lparr>vx = 100, vy = 100\<rparr> \<lparr>vx = 60, vy = 60\<rparr> 100 None,
      getObject 0 ''gift_1'' OGift \<lparr>vx = 100, vy = 100\<rparr> \<lparr>vx = 60, vy = 60\<rparr> 100
        (Some ''time-freeze'')]"

text \<open>A spawn manager on an 800 by 600 screen whose next spawn is 500 ms after time 0.\<close>

definition dueManager :: SpawnManager where
  "dueManager =
     \<lparr> sm_rng = 1,
       config = \<lparr> screenWidth = 800, screenHeight = 600, objectSize = \<lparr>vx = 60, vy = 60\<rparr>,
                  cfg_fallSpeed = 100, cfg_spawnRate = 3/2 \<rparr>,
       lastSpawnTime = 0, nextSpawnDelay = Some 500 \<rparr>"

text \<open>
  The session window of the replay: a tap is processed when its timestamp lies in
  \<open>[startTime, startTime + 120000]\<close>, and skipped otherwise.
\<close>

definition inWindow :: "real \<Rightarrow> TapEvent \<Rightarrow> bool" where
  "inWindow start tap = (start \<le> timestamp tap \<and> timestamp tap \<le> start + 120000)"

text \<open>
  The state update of the client's \<open>GameStateManager.handleTap\<close>
  (src/src/lib/game-state.ts, lines 197 and 198): \<open>processTap\<close> with the tapped object's
  card type, then \<open>applyTapResult\<close>.
\<close>

definition handleTap_state :: "real \<Rightarrow> GameState \<Rightarrow> tapType \<Rightarrow> string option \<Rightarrow> GameState" where
  "handleTap_state now gameState tapResult giftCardType =
     applyTapResult gameState (processTap now gameState tapResult giftCardType)"

section \<open>Properties of the scoring state machine\<close>

subsection \<open>Auxiliary facts\<close>

lemma applyTapResult_combo_streak:
  "combo (applyTapResult s r) = newCombo r" "streak (applyTapResult s r) = newStreak r"
  by (simp_all add: applyTapResult_def Let_def split: option.splits)

lemma updateGameState_combo_streak:
  "combo (updateGameState now s dt) = combo s" "streak (updateGameState now s dt) = streak s"
  by (simp_all add: updateGameState_def Let_def)

lemma updateCombo_formula: "updateCombo k = min (1 + of_int \<lfloor>k / 5\<rfloor> * (1/2)) 5"
  by (simp add: updateCombo_def Let_def STREAK_FOR_COMBO_def COMBO_INCREMENT_def MAX_COMBO_def)

lemma updateCombo_vals:
  "updateCombo 1 = 1" "updateCombo 2 = 1" "updateCombo 3 = 1" "updateCombo 4 = 1"
  "updateCombo 5 = 3/2" "updateCombo 6 = 3/2"
  by (simp_all add: updateCombo_formula)

lemma logo_tap_plain:
  assumes "activeEffects s = []"
  shows "score (applyTapResult s (processTap now s logo c)) = max 0 (score s + 10 * combo s)"
    and "combo (applyTapResult s (processTap now s logo c)) = updateCombo (streak s + 1)"
    and "streak (applyTapResult s (processTap now s logo c)) = streak s + 1"
    and "lives (applyTapResult s (processTap now s logo c)) = max 0 (lives s)"
    and "activeEffects (applyTapResult s (processTap now s logo c)) = []"
  using assms
  by (simp_all add: applyTapResult_def processTap_def calculatePoints_def BASE_POINTS_def Let_def)

lemma bomb_tap_plain:
  shows "score (applyTapResult s (processTap now s bomb c)) = max 0 (score s)"
    and "combo (applyTapResult s (processTap now s bomb c)) = 1"
    and "streak (applyTapResult s (processTap now s bomb c)) = 0"
    and "lives (applyTapResult s (processTap now s bomb c)) = max 0 (lives s - 1)"
    and "activeEffects (applyTapResult s (processTap now s bomb c)) = activeEffects s"
  by (simp_all add: applyTapResult_def processTap_def Let_def)

lemma map_etype_filter:
  assumes "map etype xs = map etype ys"
  shows "map etype (filter (\<lambda>e. etype e \<noteq> t) xs) = map etype (filter (\<lambda>e. etype e \<noteq> t) ys)"
proof -
  have m: "map etype (filter (\<lambda>e. etype e \<noteq> t) zs) = filter (\<lambda>n. n \<noteq> t) (map etype zs)" for zs
    by (simp add: filter_map comp_def)
  show ?thesis unfolding m by (simp only: assms)
qed

lemma list_ex_etype:
  assumes "map etype xs = map etype ys"
  shows "list_ex (\<lambda>e. etype e = t) xs = list_ex (\<lambda>e. etype e = t) ys"
proof -
  have m: "list_ex (\<lambda>e. etype e = t) zs = (t \<in> set (map etype zs))" for zs
    by (auto simp: list_ex_iff)
  show ?thesis unfolding m by (simp only: assms)
qed

text \<open>The clock only reaches the \<open>startTime\<close> field of a card effect.\<close>

lemma createMagicCardEffect_clock:
  "etype (createMagicCardEffect n1 x) = etype (createMagicCardEffect n2 x)"
  "duration (createMagicCardEffect n1 x) = duration (createMagicCardEffect n2 x)"
  "evalue (createMagicCardEffect n1 x) = evalue (createMagicCardEffect n2 x)"
  by (simp_all add: createMagicCardEffect_def)

lemma gift_step_agree:
  assumes "score a = score b" "lives a = lives b" "combo a = combo b" "streak a = streak b"
    and "map etype (activeEffects a) = map etype (activeEffects b)"
    and "etype e1 = etype e2" "duration e1 = duration e2" "evalue e1 = evalue e2"
    and "r1 = \<lparr> rtype = gift, points = 0, newCombo = combo a, newStreak = streak a,
                 livesLost = 0, effect = Some e1 \<rparr>"
    and "r2 = \<lparr> rtype = gift, points = 0, newCombo = combo b, newStreak = streak b,
                 livesLost = 0, effect = Some e2 \<rparr>"
  shows "score (applyTapResult a r1) = score (applyTapResult b r2) \<and>
         lives (applyTapResult a r1) = lives (applyTapResult b r2) \<and>
         combo (applyTapResult a r1) = combo (applyTapResult b r2) \<and>
         streak (applyTapResult a r1) = streak (applyTapResult b r2) \<and>
         map etype (activeEffects (applyTapResult a r1)) =
         map etype (activeEffects (applyTapResult b r2))"
  using assms map_etype_filter [OF assms(5), of "etype e2"]
  by (simp add: applyTapResult_def Let_def)

text \<open>
  One tap keeps two states in step: if they agree on score, lives, combo, streak and on the
  kinds of their active effects, they still do after the same tap, whatever the two clocks
  read.
\<close>

lemma tap_step_agree:
  assumes "score a = score b" "lives a = lives b" "combo a = combo b" "streak a = streak b"
    and "map etype (activeEffects a) = map etype (activeEffects b)"
  shows "score (applyTapResult a (processTap n1 a tp c)) = score (applyTapResult b (processTap n2 b tp c))"
    and "lives (applyTapResult a (processTap n1 a tp c)) = lives (applyTapResult b (processTap n2 b tp c))"
    and "combo (applyTapResult a (processTap n1 a tp c)) = combo (applyTapResult b (processTap n2 b tp c))"
    and "streak (applyTapResult a (processTap n1 a tp c)) = streak (applyTapResult b (processTap n2 b tp c))"
    and "map etype (activeEffects (applyTapResult a (processTap n1 a tp c))) =
         map etype (activeEffects (applyTapResult b (processTap n2 b tp c)))"
proof -
  have all: "score (applyTapResult a (processTap n1 a tp c)) = score (applyTapResult b (processTap n2 b tp c)) \<and>
    lives (applyTapResult a (processTap n1 a tp c)) = lives (applyTapResult b (processTap n2 b tp c)) \<and>
    combo (applyTapResult a (processTap n1 a tp c)) = combo (applyTapResult b (processTap n2 b tp c)) \<and>
    streak (applyTapResult a (processTap n1 a tp c)) = streak (applyTapResult b (processTap n2 b tp c)) \<and>
    map etype (activeEffects (applyTapResult a (processTap n1 a tp c))) =
         map etype (activeEffects (applyTapResult b (processTap n2 b tp c)))"
  proof (cases tp)
    case logo
    then show ?thesis
      using assms list_ex_etype [OF assms(5), of "''golden-monad''"]
      by (simp add: applyTapResult_def processTap_def Let_def)
  next
    case gift
    have p1: "processTap n1 a gift c = \<lparr> rtype = gift, points = 0, newCombo = combo a,
        newStreak = streak a, livesLost = 0,
        effect = Some (createMagicCardEffect n1 (cardOrDefault c)) \<rparr>"
      by (simp add: processTap_def Let_def)
    have p2: "processTap n2 b gift c = \<lparr> rtype = gift, points = 0, newCombo = combo b,
        newStreak = streak b, livesLost = 0,
        effect = Some (createMagicCardEffect n2 (cardOrDefault c)) \<rparr>"
      by (simp add: processTap_def Let_def)
    show ?thesis unfolding gift
      by (rule gift_step_agree [OF assms createMagicCardEffect_clock p1 p2])
  qed (use assms in \<open>simp_all add: applyTapResult_def processTap_def Let_def\<close>)
  from all show
    "score (applyTapResult a (processTap n1 a tp c)) = score (applyTapResult b (processTap n2 b tp c))"
    "lives (applyTapResult a (processTap n1 a tp c)) = lives (applyTapResult b (processTap n2 b tp c))"
    "combo (applyTapResult a (processTap n1 a tp c)) = combo (applyTapResult b (processTap n2 b tp c))"
    "streak (applyTapResult a (processTap n1 a tp c)) = streak (applyTapResult b (processTap n2 b tp c))"
    "map etype (activeEffects (applyTapResult a (processTap n1 a tp c))) =
         map etype (activeEffects (applyTapResult b (processTap n2 b tp c)))"
    by simp_all
qed

lemma replayLoop_append:
  "replayLoop start clock k (xs @ ys) gs =
   replayLoop start clock (k + length xs) ys (replayLoop start clock k xs gs)"
  by (induction xs arbitrary: k gs) (simp_all add: Let_def)

lemma replayLoop_outside:
  "\<forall>t\<in>set xs. \<not> inWindow start t \<Longrightarrow> replayLoop start clock k xs gs = gs"
  by (induction xs arbitrary: k) (auto simp: inWindow_def)

lemma replayLoop_inside:
  "inWindow start t \<Longrightarrow>
   replayLoop start clock k (t # xs) gs =
   replayLoop start clock (Suc k) xs (applyTapResult gs (processTap (clock k) gs (tap_result t) None))"
  by (simp add: inWindow_def Let_def not_less)

lemma replayLoop_window_agree:
  assumes "map tap_result (filter (inWindow st) h1) = map tap_result (filter (inWindow st) h2)"
    and "score a = score b" "lives a = lives b" "combo a = combo b" "streak a = streak b"
    and "map etype (activeEffects a) = map etype (activeEffects b)"
  shows "score (replayLoop st c1 k1 h1 a) = score (replayLoop st c2 k2 h2 b) \<and>
         lives (replayLoop st c1 k1 h1 a) = lives (replayLoop st c2 k2 h2 b) \<and>
         combo (replayLoop st c1 k1 h1 a) = combo (replayLoop st c2 k2 h2 b) \<and>
         streak (replayLoop st c1 k1 h1 a) = streak (replayLoop st c2 k2 h2 b)"
  using assms
proof (induction h1 arbitrary: h2 a b k1 k2)
  case Nil
  then have "filter (inWindow st) h2 = []" by simp
  then have "\<forall>t\<in>set h2. \<not> inWindow st t" by (simp add: filter_empty_conv)
  then have "replayLoop st c2 k2 h2 b = b" by (rule replayLoop_outside)
  with Nil show ?case by simp
next
  case (Cons t1 h1)
  show ?case
  proof (cases "inWindow st t1")
    case False
    then have "replayLoop st c1 k1 (t1 # h1) a = replayLoop st c1 (Suc k1) h1 a"
      by (auto simp: inWindow_def)
    moreover from False Cons.prems(1)
    have "map tap_result (filter (inWindow st) h1) = map tap_result (filter (inWindow st) h2)"
      by simp
    ultimately show ?thesis using Cons.IH [OF _ Cons.prems(2-6)] by simp
  next
    case True
    with Cons.prems(1) obtain y ys where f2: "filter (inWindow st) h2 = y # ys"
      and ty: "tap_result y = tap_result t1"
      and rest: "map tap_result (filter (inWindow st) h1) = map tap_result ys"
      by (cases "filter (inWindow st) h2") auto
    from f2 obtain us vs where h2: "h2 = us @ y # vs" and us: "\<forall>u\<in>set us. \<not> inWindow st u"
      and y: "inWindow st y" and ys: "ys = filter (inWindow st) vs"
      by (auto simp: filter_eq_Cons_iff)
    let ?a = "applyTapResult a (processTap (c1 k1) a (tap_result t1) None)"
    let ?b = "applyTapResult b (processTap (c2 (k2 + length us)) b (tap_result t1) None)"
    have l1: "replayLoop st c1 k1 (t1 # h1) a = replayLoop st c1 (Suc k1) h1 ?a"
      using True by (rule replayLoop_inside)
    have l2: "replayLoop st c2 k2 h2 b = replayLoop st c2 (Suc (k2 + length us)) vs ?b"
      unfolding h2 replayLoop_append replayLoop_outside [OF us]
      using replayLoop_inside [OF y] ty by simp
    from rest ys have r: "map tap_result (filter (inWindow st) h1) =
        map tap_result (filter (inWindow st) vs)" by simp
    show ?thesis unfolding l1 l2
      by (rule Cons.IH [OF r tap_step_agree [OF Cons.prems(2-6)]])
  qed
qed

subsection \<open>Replay equivalence\<close>

text \<open>
  Claim C1, as the code has it. For every session id and start time, two runs of the
  server's replay fold (\<open>createInitialGameState\<close>, then \<open>processTap\<close> and
  \<open>applyTapResult\<close> for each tap in order) end with the same score, lives, combo and
  streak whenever the taps that lie inside the session window
  \<open>[startTime, startTime + 120000]\<close> have the same ordered sequence of tap types in both
  histories. Taps outside the window are skipped. The two runs may differ in everything
  else: what the clock reads at each step (\<open>c1\<close>, \<open>c2\<close>), the positions and target ids
  of the taps, their timestamps inside the window, and the skipped taps.
\<close>

theorem replay_equivalence:
  assumes "map tap_result (filter (inWindow (of_int st)) h1) =
           map tap_result (filter (inWindow (of_int st)) h2)"
  shows "score (snd (finishReplay sid st c1 h1)) = score (snd (finishReplay sid st c2 h2)) \<and>
         lives (snd (finishReplay sid st c1 h1)) = lives (snd (finishReplay sid st c2 h2)) \<and>
         combo (snd (finishReplay sid st c1 h1)) = combo (snd (finishReplay sid st c2 h2)) \<and>
         streak (snd (finishReplay sid st c1 h1)) = streak (snd (finishReplay sid st c2 h2))"
proof -
  have "score (replayLoop (of_int st) c1 1 h1 (createInitialGameState (c1 0))) =
          score (replayLoop (of_int st) c2 1 h2 (createInitialGameState (c2 0))) \<and>
        lives (replayLoop (of_int st) c1 1 h1 (createInitialGameState (c1 0))) =
          lives (replayLoop (of_int st) c2 1 h2 (createInitialGameState (c2 0))) \<and>
        combo (replayLoop (of_int st) c1 1 h1 (createInitialGameState (c1 0))) =
          combo (replayLoop (of_int st) c2 1 h2 (createInitialGameState (c2 0))) \<and>
        streak (replayLoop (of_int st) c1 1 h1 (createInitialGameState (c1 0))) =
          streak (replayLoop (of_int st) c2 1 h2 (createInitialGameState (c2 0)))"
    by (rule replayLoop_window_agree [OF assms]) (simp_all add: createInitialGameState_def)
  then show ?thesis by (simp add: finishReplay_def Let_def)
qed

text \<open>
  The theorem at a gift tap and a logo tap inside the window: the second history has other
  positions and timestamps, another clock, and two more taps outside the window.
\<close>

theorem replay_equivalence_witness:
  "map tap_result (filter (inWindow (of_int 1000000))
      [tapEvent 1000200 10 20 gift, tapEvent 1000400 30 40 logo]) =
   map tap_result (filter (inWindow (of_int 1000000))
      [tapEvent 999000 1 1 bomb, tapEvent 1000300 500 60 gift, tapEvent 1000900 7 8 logo,
       tapEvent 1120001 2 2 bomb]) \<and>
   score (snd (finishReplay ''s1'' 1000000 (\<lambda>k. 0)
            [tapEvent 1000200 10 20 gift, tapEvent 1000400 30 40 logo])) =
   score (snd (finishReplay ''s1'' 1000000 (\<lambda>k. 1000000 + real k)
            [tapEvent 999000 1 1 bomb, tapEvent 1000300 500 60 gift, tapEvent 1000900 7 8 logo,
             tapEvent 1120001 2 2 bomb])) \<and>
   lives (snd (finishReplay ''s1'' 1000000 (\<lambda>k. 0)
            [tapEvent 1000200 10 20 gift, tapEvent 1000400 30 40 logo])) =
   lives (snd (finishReplay ''s1'' 1000000 (\<lambda>k. 1000000 + real k)
            [tapEvent 999000 1 1 bomb, tapEvent 1000300 500 60 gift, tapEvent 1000900 7 8 logo,
             tapEvent 1120001 2 2 bomb])) \<and>
   combo (snd (finishReplay ''s1'' 1000000 (\<lambda>k. 0)
            [tapEvent 1000200 10 20 gift, tapEvent 1000400 30 40 logo])) =
   combo (snd (finishReplay ''s1'' 1000000 (\<lambda>k. 1000000 + real k)
            [tapEvent 999000 1 1 bomb, tapEvent 1000300 500 60 gift, tapEvent 1000900 7 8 logo,
             tapEvent 1120001 2 2 bomb])) \<and>
   streak (snd (finishReplay ''s1'' 1000000 (\<lambda>k. 0)
            [tapEvent 1000200 10 20 gift, tapEvent 1000400 30 40 logo])) =
   streak (snd (finishReplay ''s1'' 1000000 (\<lambda>k. 1000000 + real k)
            [tapEvent 999000 1 1 bomb, tapEvent 1000300 500 60 gift, tapEvent 1000900 7 8 logo,
             tapEvent 1120001 2 2 bomb]))"
proof -
  have t: "map tap_result (filter (inWindow (of_int 1000000))
      [tapEvent 1000200 10 20 gift, tapEvent 1000400 30 40 logo]) =
   map tap_result (filter (inWindow (of_int 1000000))
      [tapEvent 999000 1 1 bomb, tapEvent 1000300 500 60 gift, tapEvent 1000900 7 8 logo,
       tapEvent 1120001 2 2 bomb])"
    by (simp add: tapEvent_def inWindow_def)
  from replay_equivalence [OF t, of "''s1''" "\<lambda>k. 0" "\<lambda>k. 1000000 + real k"] t
  show ?thesis by blast
qed

text \<open>
  The claim as stated, over tap types alone, fails: the same one-logo sequence replays to
  score 10 and streak 1 when the tap is inside the window, and to score 0 and streak 0
  when its timestamp is before the session start, since the fold skips that tap.
\<close>

theorem replay_timestamp_counterexample:
  "map tap_result [tapEvent 1000200 0 0 logo] = map tap_result [tapEvent 999999 0 0 logo] \<and>
   score (snd (finishReplay ''s1'' 1000000 (\<lambda>k. 0) [tapEvent 1000200 0 0 logo])) = 10 \<and>
   score (snd (finishReplay ''s1'' 1000000 (\<lambda>k. 0) [tapEvent 999999 0 0 logo])) = 0 \<and>
   streak (snd (finishReplay ''s1'' 1000000 (\<lambda>k. 0) [tapEvent 1000200 0 0 logo])) = 1 \<and>
   streak (snd (finishReplay ''s1'' 1000000 (\<lambda>k. 0) [tapEvent 999999 0 0 logo])) = 0"
  by (simp add: finishReplay_def tapEvent_def Let_def createInitialGameState_def logo_tap_plain)

text \<open>
  The replay fold is compared with itself above. The client's own state is another fold:
  \<open>handleTap\<close> passes the card of the tapped gift, the replay passes none (and
  \<open>processTap\<close> then takes time-freeze). After three logo taps and a gift revealing a
  bomb-trap the client's score is 10 and the replayed score 30.
\<close>

lemma client_prediction_differs:
  "score (handleTap_state 4 (handleTap_state 3 (handleTap_state 2 (handleTap_state 1
      (createInitialGameState 0) logo None) logo None) logo None) gift (Some ''bomb-trap'')) = 10 \<and>
   score (snd (finishReplay ''s1'' 1000000 (\<lambda>k. real k)
      [tapEvent 1000200 0 0 logo, tapEvent 1000400 0 0 logo, tapEvent 1000600 0 0 logo,
       tapEvent 1000800 0 0 gift])) = 30"
proof -
  define g0 where "g0 = createInitialGameState 0"
  define g1 where "g1 = applyTapResult g0 (processTap 1 g0 logo None)"
  define g2 where "g2 = applyTapResult g1 (processTap 2 g1 logo None)"
  define g3 where "g3 = applyTapResult g2 (processTap 3 g2 logo None)"
  have f0: "score g0 = 0 \<and> combo g0 = 1 \<and> streak g0 = 0 \<and> activeEffects g0 = []"
    by (simp add: g0_def createInitialGameState_def)
  have f1: "score g1 = 10 \<and> combo g1 = 1 \<and> streak g1 = 1 \<and> activeEffects g1 = []"
    using f0 by (simp add: g1_def logo_tap_plain updateCombo_vals)
  have f2: "score g2 = 20 \<and> combo g2 = 1 \<and> streak g2 = 2 \<and> activeEffects g2 = []"
    using f1 by (simp add: g2_def logo_tap_plain updateCombo_vals)
  have f3: "score g3 = 30 \<and> combo g3 = 1 \<and> streak g3 = 3 \<and> activeEffects g3 = []"
    using f2 by (simp add: g3_def logo_tap_plain updateCombo_vals)
  have c: "score (applyTapResult g3 (processTap 4 g3 gift (Some ''bomb-trap''))) = 10"
    using f3 by (simp add: applyTapResult_def processTap_def Let_def cardOrDefault_def
        createMagicCardEffect_def valueOrZero_def)
  have s: "score (applyTapResult g3 (processTap 4 g3 gift None)) = 30"
    using f3 by (simp add: applyTapResult_def processTap_def Let_def cardOrDefault_def
        createMagicCardEffect_def valueOrZero_def)
  have r: "snd (finishReplay ''s1'' 1000000 (\<lambda>k. real k)
      [tapEvent 1000200 0 0 logo, tapEvent 1000400 0 0 logo, tapEvent 1000600 0 0 logo,
       tapEvent 1000800 0 0 gift]) = applyTapResult g3 (processTap 4 g3 gift None)"
    by (simp add: finishReplay_def tapEvent_def Let_def g0_def g1_def g2_def g3_def eval_nat_numeral)
  show ?thesis
    unfolding r handleTap_state_def using c s
    by (simp add: g0_def g1_def g2_def g3_def)
qed

subsection \<open>Golden monad\<close>

text \<open>
  Claim C3 says that a gift tap revealing the golden-monad card puts the effect in the
  active-effect list, that the next logo tap is tripled and that this tap removes the
  effect. The code does neither. \<open>createMagicCardEffect\<close> gives the card duration 0, and
  \<open>applyTapResult\<close> stores an effect only when its duration is positive: after the gift
  tap the list is unchanged, so from the initial state the next logo tap scores 10, not
  30. And no logo tap changes the list: were a golden-monad effect in it, the logo tap
  would score 30 and so would the logo tap after it.
\<close>

theorem golden_monad_never_stored_nor_consumed:
  "activeEffects (applyTapResult s (processTap now s gift (Some ''golden-monad''))) = activeEffects s \<and>
   activeEffects (applyTapResult s (processTap now s logo c)) = activeEffects s \<and>
   points (processTap now' (applyTapResult (createInitialGameState now)
       (processTap now (createInitialGameState now) gift (Some ''golden-monad''))) logo None) = 10 \<and>
   points (processTap now' ((createInitialGameState now)
       \<lparr>activeEffects := [createMagicCardEffect now ''golden-monad'']\<rparr>) logo None) = 30 \<and>
   points (processTap now'' (applyTapResult ((createInitialGameState now)
       \<lparr>activeEffects := [createMagicCardEffect now ''golden-monad'']\<rparr>)
          (processTap now' ((createInitialGameState now)
             \<lparr>activeEffects := [createMagicCardEffect now ''golden-monad'']\<rparr>) logo None)) logo None) = 30"
  by (simp add: applyTapResult_def processTap_def Let_def cardOrDefault_def updateCombo_formula
      createMagicCardEffect_def createInitialGameState_def calculatePoints_def BASE_POINTS_def)

subsection \<open>Per-type tap policy\<close>

text \<open>
  Claim C4. For every game state (and clock reading and card argument), \<open>processTap\<close> on
  a glitch tap and on a miss tap gives zero points, combo 1.0, streak 0 and no life lost;
  on a bomb tap it gives combo 1.0, streak 0 and exactly one life lost; and a tap loses a
  life exactly when its type is bomb.
\<close>

theorem processTap_resets:
  "points (processTap now s glitch c) = 0 \<and> newCombo (processTap now s glitch c) = 1 \<and>
   newStreak (processTap now s glitch c) = 0 \<and> livesLost (processTap now s glitch c) = 0 \<and>
   points (processTap now s miss c) = 0 \<and> newCombo (processTap now s miss c) = 1 \<and>
   newStreak (processTap now s miss c) = 0 \<and> livesLost (processTap now s miss c) = 0 \<and>
   newCombo (processTap now s bomb c) = 1 \<and> newStreak (processTap now s bomb c) = 0 \<and>
   livesLost (processTap now s bomb c) = 1 \<and>
   (livesLost (processTap now s tp c) \<noteq> 0) = (tp = bomb)"
  by (cases tp) (simp_all add: processTap_def Let_def)

subsection \<open>End-to-end scenario\<close>

text \<open>
  Claim C5. In the replay of the scenario (six logo taps, then a bomb) from the initial
  state: after the fifth tap the streak is 5 and the combo 1.5; the sixth tap scores
  exactly 15 points; the bomb tap right after resets the combo to 1.0 (and the streak to 0)
  and takes exactly one of the five lives.
\<close>

theorem scenario_six_logos_then_bomb:
  "let s5 = snd (finishReplay ''s1'' 1000000 clock (take 5 scenario));
       s6 = snd (finishReplay ''s1'' 1000000 clock (take 6 scenario));
       s7 = snd (finishReplay ''s1'' 1000000 clock scenario)
   in streak s5 = 5 \<and> combo s5 = 3/2 \<and>
      points (processTap (clock 6) s5 logo None) = 15 \<and> score s6 = score s5 + 15 \<and>
      combo s7 = 1 \<and> streak s7 = 0 \<and> lives s6 = 5 \<and> lives s7 = lives s6 - 1"
proof -
  define g0 where "g0 = createInitialGameState (clock 0)"
  define g1 where "g1 = applyTapResult g0 (processTap (clock 1) g0 logo None)"
  define g2 where "g2 = applyTapResult g1 (processTap (clock 2) g1 logo None)"
  define g3 where "g3 = applyTapResult g2 (processTap (clock 3) g2 logo None)"
  define g4 where "g4 = applyTapResult g3 (processTap (clock 4) g3 logo None)"
  define g5 where "g5 = applyTapResult g4 (processTap (clock 5) g4 logo None)"
  define g6 where "g6 = applyTapResult g5 (processTap (clock 6) g5 logo None)"
  define g7 where "g7 = applyTapResult g6 (processTap (clock 7) g6 bomb None)"
  have r5: "snd (finishReplay ''s1'' 1000000 clock (take 5 scenario)) = g5"
    by (simp add: finishReplay_def scenario_def tapEvent_def Let_def g0_def g1_def g2_def g3_def
        g4_def g5_def eval_nat_numeral)
  have r6: "snd (finishReplay ''s1'' 1000000 clock (take 6 scenario)) = g6"
    by (simp add: finishReplay_def scenario_def tapEvent_def Let_def g0_def g1_def g2_def g3_def
        g4_def g5_def g6_def eval_nat_numeral)
  have r7: "snd (finishReplay ''s1'' 1000000 clock scenario) = g7"
    by (simp add: finishReplay_def scenario_def tapEvent_def Let_def g0_def g1_def g2_def g3_def
        g4_def g5_def g6_def g7_def eval_nat_numeral)
  have f0: "score g0 = 0 \<and> combo g0 = 1 \<and> streak g0 = 0 \<and> lives g0 = 5 \<and> activeEffects g0 = []"
    by (simp add: g0_def createInitialGameState_def INITIAL_LIVES_def)
  have f1: "score g1 = 10 \<and> combo g1 = 1 \<and> streak g1 = 1 \<and> lives g1 = 5 \<and> activeEffects g1 = []"
    using f0 by (simp add: g1_def logo_tap_plain updateCombo_vals)
  have f2: "score g2 = 20 \<and> combo g2 = 1 \<and> streak g2 = 2 \<and> lives g2 = 5 \<and> activeEffects g2 = []"
    using f1 by (simp add: g2_def logo_tap_plain updateCombo_vals)
  have f3: "score g3 = 30 \<and> combo g3 = 1 \<and> streak g3 = 3 \<and> lives g3 = 5 \<and> activeEffects g3 = []"
    using f2 by (simp add: g3_def logo_tap_plain updateCombo_vals)
  have f4: "score g4 = 40 \<and> combo g4 = 1 \<and> streak g4 = 4 \<and> lives g4 = 5 \<and> activeEffects g4 = []"
    using f3 by (simp add: g4_def logo_tap_plain updateCombo_vals)
  have f5: "score g5 = 50 \<and> combo g5 = 3/2 \<and> streak g5 = 5 \<and> lives g5 = 5 \<and> activeEffects g5 = []"
    using f4 by (simp add: g5_def logo_tap_plain updateCombo_vals)
  have p6: "points (processTap (clock 6) g5 logo None) = 15"
    using f5 by (simp add: processTap_def calculatePoints_def BASE_POINTS_def Let_def)
  have f6: "score g6 = 65 \<and> combo g6 = 3/2 \<and> streak g6 = 6 \<and> lives g6 = 5 \<and> activeEffects g6 = []"
    using f5 by (simp add: g6_def logo_tap_plain updateCombo_vals)
  have f7: "score g7 = 65 \<and> combo g7 = 1 \<and> streak g7 = 0 \<and> lives g7 = 4"
    using f6 by (simp add: g7_def bomb_tap_plain)
  show ?thesis
    unfolding Let_def r5 r6 r7 using f5 p6 f6 f7 by simp
qed

subsection \<open>Combo invariant\<close>

text \<open>
  Claim C6. Every game state reachable from the initial state through taps
  (\<open>processTap\<close> then \<open>applyTapResult\<close>) and frame updates (\<open>updateGameState\<close>) has
  \<open>combo = min(1.0 + floor(streak / 5) * 0.5, 5.0)\<close>: no operation sets the combo apart
  from the streak.
\<close>

theorem combo_derived_from_streak:
  "reachable s \<Longrightarrow> combo s = min (1 + of_int \<lfloor>streak s / 5\<rfloor> * (1/2)) 5"
proof (induction rule: reachable.induct)
  case (reach_init now)
  show ?case by (simp add: createInitialGameState_def)
next
  case (reach_tap s now tp c)
  show ?case
  proof (cases tp)
    case logo
    then show ?thesis
      by (simp add: applyTapResult_combo_streak processTap_def Let_def updateCombo_formula)
  next
    case gift
    then show ?thesis using reach_tap.IH
      by (simp add: applyTapResult_combo_streak processTap_def Let_def)
  qed (simp_all add: applyTapResult_combo_streak processTap_def Let_def)
next
  case (reach_tick s now dt)
  then show ?case by (simp add: updateGameState_combo_streak)
qed

text \<open>The invariant at the state after one logo tap, whose streak is 1.\<close>

theorem combo_derived_from_streak_witness:
  "reachable (applyTapResult (createInitialGameState 0) (processTap 0 (createInitialGameState 0) logo None)) \<and>
   combo (applyTapResult (createInitialGameState 0) (processTap 0 (createInitialGameState 0) logo None)) =
     min (1 + of_int \<lfloor>streak (applyTapResult (createInitialGameState 0)
        (processTap 0 (createInitialGameState 0) logo None)) / 5\<rfloor> * (1/2)) 5 \<and>
   streak (applyTapResult (createInitialGameState 0) (processTap 0 (createInitialGameState 0) logo None)) = 1"
proof -
  have r: "reachable (applyTapResult (createInitialGameState 0)
             (processTap 0 (createInitialGameState 0) logo None))"
    by (rule reach_tap [OF reach_init])
  have "streak (applyTapResult (createInitialGameState 0) (processTap 0 (createInitialGameState 0) logo None)) = 1"
    by (simp add: applyTapResult_combo_streak processTap_def Let_def createInitialGameState_def)
  with r combo_derived_from_streak [OF r] show ?thesis by simp
qed

subsection \<open>Score and lives floors\<close>

text \<open>
  Claim C7, as the code has it. For every game state and every tap result,
  \<open>applyTapResult\<close> returns \<open>lives = max(0, lives - livesLost)\<close> and a score that is
  never negative. The score is \<open>max(0, score + points)\<close> when the result carries no
  bomb-trap effect; a bomb-trap effect is applied on top of that, giving
  \<open>max(0, max(0, score + points) + value)\<close> with the effect's payload \<open>value\<close> (-20 for
  the card, 0 when absent).
\<close>

theorem applyTapResult_clamps:
  "score (applyTapResult s r) =
     (if (case effect r of None \<Rightarrow> False | Some e \<Rightarrow> etype e = ''bomb-trap'')
      then max 0 (max 0 (score s + points r) + valueOrZero (evalue (the (effect r))))
      else max 0 (score s + points r)) \<and>
   0 \<le> score (applyTapResult s r) \<and>
   lives (applyTapResult s r) = max 0 (lives s - livesLost r) \<and>
   0 \<le> lives (applyTapResult s r)"
  by (simp add: applyTapResult_def Let_def split: option.splits)

text \<open>
  The claim as stated fails for a result that carries the bomb-trap effect: from score
  100, the gift tap revealing a bomb-trap has 0 points, and the new score is 80, not
  \<open>max(0, 100 + 0) = 100\<close>.
\<close>

theorem applyTapResult_bomb_trap_counterexample:
  "0 \<le> score ((createInitialGameState 0)\<lparr>score := 100\<rparr>) \<and>
   0 \<le> lives ((createInitialGameState 0)\<lparr>score := 100\<rparr>) \<and>
   score (applyTapResult ((createInitialGameState 0)\<lparr>score := 100\<rparr>)
      (processTap 0 ((createInitialGameState 0)\<lparr>score := 100\<rparr>) gift (Some ''bomb-trap''))) = 80 \<and>
   max 0 (score ((createInitialGameState 0)\<lparr>score := 100\<rparr>) +
      points (processTap 0 ((createInitialGameState 0)\<lparr>score := 100\<rparr>) gift (Some ''bomb-trap''))) = 100"
  by (simp add: applyTapResult_def processTap_def createInitialGameState_def Let_def
      cardOrDefault_def createMagicCardEffect_def valueOrZero_def INITIAL_LIVES_def)

section \<open>Properties of the physics layer\<close>

subsection \<open>Hitbox edges\<close>

text \<open>
  Claim C10. A point lying exactly on an edge of an object's hitbox is inside it. A
  hitbox is \<open>createAABB(position, size)\<close> for an object's size, a box of non-negative
  width and height. For every such box \<open>pointInAABB\<close> is true at a point with
  \<open>x = center.x - width/2\<close> or \<open>x = center.x + width/2\<close> and \<open>y\<close> within the vertical
  bounds, and at a point with \<open>y = center.y - height/2\<close> or \<open>y = center.y + height/2\<close>
  and \<open>x\<close> within the horizontal bounds: all four comparisons are inclusive.
\<close>

theorem pointInAABB_edges:
  assumes "0 \<le> width b" "0 \<le> height b"
  shows "((vx p = box_x b - width b / 2 \<or> vx p = box_x b + width b / 2) \<and>
          box_y b - height b / 2 \<le> vy p \<and> vy p \<le> box_y b + height b / 2
          \<longrightarrow> pointInAABB p b) \<and>
         ((vy p = box_y b - height b / 2 \<or> vy p = box_y b + height b / 2) \<and>
          box_x b - width b / 2 \<le> vx p \<and> vx p \<le> box_x b + width b / 2
          \<longrightarrow> pointInAABB p b)"
  using assms by (auto simp: pointInAABB_def Let_def)

text \<open>
  The four edges of the hitbox of a logo of size 60 by 60 spawned at \<open>(100, 100)\<close>.
\<close>

theorem pointInAABB_edges_witness:
  "0 \<le> width (hitbox (getObject 0 ''logo_1'' OLogo \<lparr>vx = 100, vy = 100\<rparr> \<lparr>vx = 60, vy = 60\<rparr> 100 None)) \<and>
   0 \<le> height (hitbox (getObject 0 ''logo_1'' OLogo \<lparr>vx = 100, vy = 100\<rparr> \<lparr>vx = 60, vy = 60\<rparr> 100 None)) \<and>
   pointInAABB \<lparr>vx = 130, vy = 110\<rparr>
     (hitbox (getObject 0 ''logo_1'' OLogo \<lparr>vx = 100, vy = 100\<rparr> \<lparr>vx = 60, vy = 60\<rparr> 100 None)) \<and>
   pointInAABB \<lparr>vx = 70, vy = 110\<rparr>
     (hitbox (getObject 0 ''logo_1'' OLogo \<lparr>vx = 100, vy = 100\<rparr> \<lparr>vx = 60, vy = 60\<rparr> 100 None)) \<and>
   pointInAABB \<lparr>vx = 110, vy = 130\<rparr>
     (hitbox (getObject 0 ''logo_1'' OLogo \<lparr>vx = 100, vy = 100\<rparr> \<lparr>vx = 60, vy = 60\<rparr> 100 None)) \<and>
   pointInAABB \<lparr>vx = 110, vy = 70\<rparr>
     (hitbox (getObject 0 ''logo_1'' OLogo \<lparr>vx = 100, vy = 100\<rparr> \<lparr>vx = 60, vy = 60\<rparr> 100 None))"
proof -
  let ?b = "hitbox (getObject 0 ''logo_1'' OLogo \<lparr>vx = 100, vy = 100\<rparr> \<lparr>vx = 60, vy = 60\<rparr> 100 None)"
  have b: "?b = \<lparr>box_x = 100, box_y = 100, width = 60, height = 60\<rparr>"
    by (simp add: getObject_def createAABB_def)
  have w: "0 \<le> width ?b" "0 \<le> height ?b" by (simp_all add: b)
  from pointInAABB_edges [OF w, of "\<lparr>vx = 130, vy = 110\<rparr>"]
       pointInAABB_edges [OF w, of "\<lparr>vx = 70, vy = 110\<rparr>"]
       pointInAABB_edges [OF w, of "\<lparr>vx = 110, vy = 130\<rparr>"]
       pointInAABB_edges [OF w, of "\<lparr>vx = 110, vy = 70\<rparr>"] w
  show ?thesis by (simp add: b)
qed

subsection \<open>Tap resolution\<close>

lemma hd_sort_key_min:
  assumes "xs \<noteq> []"
  shows "hd (sort_key f xs) \<in> set xs \<and> (\<forall>y\<in>set xs. f (hd (sort_key f xs)) \<le> f y)"
proof -
  obtain a rest where ar: "sort_key f xs = a # rest"
    using assms by (cases "sort_key f xs") (auto dest: arg_cong [where f = length])
  have "set (a # rest) = set xs" using ar set_sort [of f xs] by simp
  moreover have "sorted (map f (a # rest))" using ar sorted_sort_key [of f xs] by simp
  ultimately show ?thesis using ar by auto
qed

text \<open>
  Claim C8. For every object list and tap point: when no active object's hitbox contains
  the point, \<open>findTappedObjects\<close> returns the empty list; otherwise it returns exactly one
  object, an active object of the list whose hitbox contains the point and whose type has
  the highest priority among all such objects, under the order
  gift > logo > glitch > bomb. It never returns more than one object, and the caller's list
  is the same after the call (the returned object is an element of it, as it was).
\<close>

theorem findTappedObjects_priority:
  "((\<forall>obj\<in>set objects. \<not> (isActive obj \<and> pointInAABB p (hitbox obj)))
      \<longrightarrow> findTappedObjects objects p = []) \<and>
   ((\<exists>obj\<in>set objects. isActive obj \<and> pointInAABB p (hitbox obj))
      \<longrightarrow> (\<exists>best\<in>set objects. findTappedObjects objects p = [best] \<and>
             isActive best \<and> pointInAABB p (hitbox best) \<and>
             (\<forall>obj\<in>set objects. isActive obj \<and> pointInAABB p (hitbox obj)
                \<longrightarrow> priorityOrder (otype obj) \<le> priorityOrder (otype best)))) \<and>
   length (findTappedObjects objects p) \<le> 1 \<and>
   fst (findTappedObjects_run objects p) = objects \<and>
   priorityOrder OGift > priorityOrder OLogo \<and> priorityOrder OLogo > priorityOrder OGlitch \<and>
   priorityOrder OGlitch > priorityOrder OBomb"
proof -
  let ?hits = "filter (\<lambda>obj. isActive obj \<and> pointInAABB p (hitbox obj)) objects"
  let ?key = "\<lambda>obj. - priorityOrder (otype obj)"
  have none: "findTappedObjects objects p = []" if "?hits = []"
    using that by (simp add: findTappedObjects_def findTappedObjects_run_def)
  have some: "findTappedObjects objects p = [hd (sort_key ?key ?hits)]" if "?hits \<noteq> []"
    using that by (simp add: findTappedObjects_def findTappedObjects_run_def Let_def)
  have c1: "(\<forall>obj\<in>set objects. \<not> (isActive obj \<and> pointInAABB p (hitbox obj)))
      \<longrightarrow> findTappedObjects objects p = []"
    using none by (auto simp: filter_empty_conv)
  have c2: "(\<exists>obj\<in>set objects. isActive obj \<and> pointInAABB p (hitbox obj))
      \<longrightarrow> (\<exists>best\<in>set objects. findTappedObjects objects p = [best] \<and>
             isActive best \<and> pointInAABB p (hitbox best) \<and>
             (\<forall>obj\<in>set objects. isActive obj \<and> pointInAABB p (hitbox obj)
                \<longrightarrow> priorityOrder (otype obj) \<le> priorityOrder (otype best)))"
  proof
    assume "\<exists>obj\<in>set objects. isActive obj \<and> pointInAABB p (hitbox obj)"
    then have ne: "?hits \<noteq> []" by (auto simp: filter_empty_conv)
    from hd_sort_key_min [OF ne, of ?key]
    have m: "hd (sort_key ?key ?hits) \<in> set ?hits"
      "\<forall>y\<in>set ?hits. ?key (hd (sort_key ?key ?hits)) \<le> ?key y" by auto
    show "\<exists>best\<in>set objects. findTappedObjects objects p = [best] \<and>
             isActive best \<and> pointInAABB p (hitbox best) \<and>
             (\<forall>obj\<in>set objects. isActive obj \<and> pointInAABB p (hitbox obj)
                \<longrightarrow> priorityOrder (otype obj) \<le> priorityOrder (otype best))"
      using m some [OF ne] by (intro bexI [of _ "hd (sort_key ?key ?hits)"]) auto
  qed
  have c3: "length (findTappedObjects objects p) \<le> 1"
    by (cases "?hits = []") (simp_all add: none some)
  have c4: "fst (findTappedObjects_run objects p) = objects"
    by (simp add: findTappedObjects_run_def Let_def)
  have c5: "priorityOrder OGift > priorityOrder OLogo \<and> priorityOrder OLogo > priorityOrder OGlitch \<and>
   priorityOrder OGlitch > priorityOrder OBomb"
    by (simp add: priorityOrder_def)
  from c1 c2 c3 c4 c5 show ?thesis by blast
qed

text \<open>
  A bomb, a logo and a gift whose hitboxes all contain the tap point \<open>(110, 90)\<close>: the
  tap resolves to the gift. A tap at \<open>(500, 500)\<close> hits nothing.
\<close>

theorem findTappedObjects_priority_witness:
  "(\<exists>obj\<in>set (overlapping). isActive obj \<and> pointInAABB \<lparr>vx = 110, vy = 90\<rparr> (hitbox obj)) \<and>
   findTappedObjects overlapping \<lparr>vx = 110, vy = 90\<rparr> =
     [getObject 0 ''gift_1'' OGift \<lparr>vx = 100, vy = 100\<rparr> \<lparr>vx = 60, vy = 60\<rparr> 100 (Some ''time-freeze'')] \<and>
   fst (findTappedObjects_run overlapping \<lparr>vx = 110, vy = 90\<rparr>) = overlapping \<and>
   findTappedObjects overlapping \<lparr>vx = 500, vy = 500\<rparr> = []"
proof -
  let ?p = "\<lparr>vx = 110, vy = 90\<rparr>"
  let ?q = "\<lparr>vx = 500, vy = 500\<rparr>"
  let ?g = "getObject 0 ''gift_1'' OGift \<lparr>vx = 100, vy = 100\<rparr> \<lparr>vx = 60, vy = 60\<rparr> 100 (Some ''time-freeze'')"
  have hit: "\<exists>obj\<in>set overlapping. isActive obj \<and> pointInAABB ?p (hitbox obj)"
    by (simp add: overlapping_def getObject_def createAABB_def pointInAABB_def)
  have nohit: "\<forall>obj\<in>set overlapping. \<not> (isActive obj \<and> pointInAABB ?q (hitbox obj))"
    by (simp add: overlapping_def getObject_def createAABB_def pointInAABB_def)
  from findTappedObjects_priority [of overlapping ?p] hit
  obtain best where b: "best \<in> set overlapping" "findTappedObjects overlapping ?p = [best]"
    "\<forall>obj\<in>set overlapping. isActive obj \<and> pointInAABB ?p (hitbox obj)
        \<longrightarrow> priorityOrder (otype obj) \<le> priorityOrder (otype best)"
    by blast
  from b(3) have "priorityOrder OGift \<le> priorityOrder (otype best)"
    by (simp add: overlapping_def getObject_def createAABB_def pointInAABB_def)
  with b(1) have "best = ?g"
    by (auto simp: overlapping_def getObject_def priorityOrder_def)
  with b(2) have r: "findTappedObjects overlapping ?p = [?g]" by simp
  from findTappedObjects_priority [of overlapping ?p]
  have same: "fst (findTappedObjects_run overlapping ?p) = overlapping" by blast
  from findTappedObjects_priority [of overlapping ?q] nohit
  have e: "findTappedObjects overlapping ?q = []" by blast
  from hit r same e show ?thesis by blast
qed

section \<open>Properties of the spawn manager\<close>

lemma next_u32_bound: "fst (next_u32 st) < 4294967296"
proof -
  have "fst (next_u32 st) = unat (snd (next_u32 st))"
    by (simp add: next_u32_def Let_def)
  moreover have "unat (snd (next_u32 st)) < 2 ^ 32"
    using unsigned_less [of "snd (next_u32 st)", where 'a = nat] by simp
  ultimately show ?thesis by simp
qed

lemma nextFloat_range: "0 \<le> fst (nextFloat st) \<and> fst (nextFloat st) < 1"
proof -
  have "fst (nextFloat st) = real (fst (next_u32 st)) / 4294967296"
    by (simp add: nextFloat_def split_beta)
  with next_u32_bound [of st] show ?thesis by simp
qed

text \<open>\<open>nextInt(2, 4)\<close> excludes its upper bound: it draws 2 or 3.\<close>

lemma nextInt_2_4: "fst (nextInt 2 4 st) = 2 \<or> fst (nextInt 2 4 st) = 3"
proof -
  let ?f = "fst (nextFloat st)"
  have r: "0 \<le> ?f" "?f < 1" using nextFloat_range [of st] by auto
  have "\<lfloor>?f * 2\<rfloor> = 0 \<or> \<lfloor>?f * 2\<rfloor> = 1"
  proof -
    have "0 \<le> \<lfloor>?f * 2\<rfloor>" using r by simp
    moreover have "\<lfloor>?f * 2\<rfloor> < 2" using r by (simp add: floor_less_iff)
    ultimately show ?thesis by linarith
  qed
  then show ?thesis by (auto simp: nextInt_def split_beta)
qed

lemma spawnLoop_length:
  "length (fst (spawnLoop now ids cfg spawnCount i r objects)) =
     length objects + (nat \<lceil>spawnCount\<rceil> - i)"
proof (induction now ids cfg spawnCount i r objects rule: spawnLoop.induct)
  case (1 now ids cfg spawnCount i r objects)
  show ?case
  proof (cases "real i < spawnCount")
    case True
    then have "i < nat \<lceil>spawnCount\<rceil>" by linarith
    with True 1 show ?thesis by (subst spawnLoop.simps) simp
  next
    case False
    then have "nat \<lceil>spawnCount\<rceil> \<le> i" by linarith
    with False show ?thesis by (subst spawnLoop.simps) simp
  qed
qed

lemma spawnObjects_length:
  "length (fst (spawnObjects now ids m sm)) =
     (if m > 2 then nat \<lceil>fst (nextInt 2 4 (sm_rng sm))\<rceil> else 1)"
  by (simp add: spawnObjects_def Let_def split_beta spawnLoop_length)

text \<open>The burst of a swarm tick has two or three objects, never four.\<close>

lemma spawnObjects_burst:
  "m > 2 \<Longrightarrow> length (fst (spawnObjects now ids m sm)) = 2 \<or>
              length (fst (spawnObjects now ids m sm)) = 3"
  using nextInt_2_4 [of "sm_rng sm"] by (auto simp: spawnObjects_length)

text \<open>
  Claim C9. While time is frozen, \<open>update\<close> spawns nothing (and leaves the manager as it
  is). Otherwise, on a tick where the time since the last spawn has reached the next-spawn
  delay \<open>d\<close>, it spawns exactly one object when the spawn-rate multiplier is at most 2,
  and between 2 and 4 objects in one burst when the multiplier is above 2.
\<close>

theorem spawn_count:
  "(timeFrozen \<longrightarrow> update now ids t m timeFrozen sm = ([], sm)) \<and>
   (\<not> timeFrozen \<and> nextSpawnDelay sm = Some d \<and> t - lastSpawnTime sm \<ge> d \<longrightarrow>
      (m \<le> 2 \<longrightarrow> length (fst (update now ids t m timeFrozen sm)) = 1) \<and>
      (m > 2 \<longrightarrow> 2 \<le> length (fst (update now ids t m timeFrozen sm)) \<and>
                 length (fst (update now ids t m timeFrozen sm)) \<le> 4))"
proof -
  have frozen: "update now ids t m True sm = ([], sm)"
    by (simp add: update_def)
  have due: "fst (update now ids t m False sm) = fst (spawnObjects now ids m sm)"
    if "nextSpawnDelay sm = Some d" "t - lastSpawnTime sm \<ge> d"
    using that by (simp add: update_def Let_def split_beta)
  have one: "length (fst (update now ids t m False sm)) = 1"
    if "nextSpawnDelay sm = Some d" "t - lastSpawnTime sm \<ge> d" "m \<le> 2"
    using that due by (simp add: spawnObjects_length)
  have many: "2 \<le> length (fst (update now ids t m False sm)) \<and>
              length (fst (update now ids t m False sm)) \<le> 4"
    if "nextSpawnDelay sm = Some d" "t - lastSpawnTime sm \<ge> d" "m > 2"
    using that due spawnObjects_burst [of m now ids sm] by auto
  show ?thesis
  proof (cases timeFrozen)
    case True
    then show ?thesis using frozen by simp
  next
    case False
    then have "timeFrozen = False" by simp
    then show ?thesis using one many by blast
  qed
qed

text \<open>
  A manager whose next spawn is due (delay 500 ms, last spawn at 0, now 1000): frozen, it
  spawns nothing; with multiplier 1 it spawns one object; with multiplier 3 (monad-swarm)
  it spawns a burst.
\<close>

theorem spawn_count_witness:
  "update 0 (\<lambda>i. ''obj'') 1000 3 True dueManager = ([], dueManager) \<and>
   nextSpawnDelay dueManager = Some 500 \<and> 1000 - lastSpawnTime dueManager \<ge> 500 \<and>
   length (fst (update 0 (\<lambda>i. ''obj'') 1000 1 False dueManager)) = 1 \<and>
   2 \<le> length (fst (update 0 (\<lambda>i. ''obj'') 1000 3 False dueManager)) \<and>
   length (fst (update 0 (\<lambda>i. ''obj'') 1000 3 False dueManager)) \<le> 4"
proof -
  have d: "nextSpawnDelay dueManager = Some 500" "1000 - lastSpawnTime dueManager \<ge> 500"
    by (simp_all add: dueManager_def)
  from spawn_count [of True 0 "\<lambda>i. ''obj''" 1000 3 dueManager 500]
  have a: "update 0 (\<lambda>i. ''obj'') 1000 3 True dueManager = ([], dueManager)" by simp
  from spawn_count [of False 0 "\<lambda>i. ''obj''" 1000 1 dueManager 500] d
  have b: "length (fst (update 0 (\<lambda>i. ''obj'') 1000 1 False dueManager)) = 1" by simp
  from spawn_count [of False 0 "\<lambda>i. ''obj''" 1000 3 dueManager 500] d
  have c: "2 \<le> length (fst (update 0 (\<lambda>i. ''obj'') 1000 3 False dueManager)) \<and>
           length (fst (update 0 (\<lambda>i. ''obj'') 1000 3 False dueManager)) \<le> 4" by simp
  from a b c d show ?thesis by simp
qed

section \<open>Properties of the state hashes\<close>

lemma natToString_length:
  "2 \<le> base \<Longrightarrow> n < base ^ k \<Longrightarrow> 0 < k \<Longrightarrow> length (natToString base n) \<le> k"
proof (induction base n arbitrary: k rule: natToString.induct)
  case (1 base n)
  show ?case
  proof (cases "n < base")
    case True
    with "1.prems" show ?thesis by (subst natToString.simps) simp
  next
    case False
    with "1.prems" have k2: "2 \<le> k"
      by (cases "k = 1") auto
    then obtain j where j: "k = Suc j" "0 < j" by (cases k) auto
    from "1.prems" j have "n < base * base ^ j" by simp
    then have "n div base < base ^ j"
      using "1.prems"(1) by (simp add: less_mult_imp_div_less mult.commute)
    with "1.IH" [of j] False "1.prems"(1) j have "length (natToString base (n div base)) \<le> j"
      by simp
    with False "1.prems"(1) j show ?thesis by (subst natToString.simps) simp
  qed
qed

text \<open>A signed 32-bit integer in base 16 has at most eight digits and a sign.\<close>

lemma int32ToHex_length: "length (int32ToHex h) \<le> 9"
proof -
  have lo: "- (2 ^ 31) \<le> sint h" using sint_ge [of h] by simp
  have hi: "sint h < 2 ^ 31" using sint_lt [of h] by simp
  have "nat (- sint h) < 16 ^ 8" using lo by simp
  then have a: "length (natToString 16 (nat (- sint h))) \<le> 8"
    by (intro natToString_length) simp_all
  have "nat (sint h) < 16 ^ 8" using hi by simp
  then have b: "length (natToString 16 (nat (sint h))) \<le> 8"
    by (intro natToString_length) simp_all
  from a b show ?thesis by (simp add: int32ToHex_def)
qed

lemma calculateStateHash_length: "length (calculateStateHash s) \<le> 9"
  by (simp add: calculateStateHash_def Let_def int32ToHex_length)

lemma hex8_length: "length (hex8 w) = 8"
  by (simp add: hex8_def)

lemma sha256_hex_length: "length (sha256_hex str) = 64"
  by (simp add: sha256_hex_def hex8_length split: prod.splits)

lemma generateStateHash_length: "length (generateStateHash s n) = 16"
  by (simp add: generateStateHash_def Let_def sha256_hex_length)

text \<open>The client's rendering and hash of the initial state, evaluated.\<close>

lemma natToString_small:
  "natToString 10 0 = ''0''" "natToString 10 5 = ''5''" "natToString 10 120 = ''120''"
  "natToString 10 10 = ''10''"
  by (simp_all add: natToString.simps digitChar_def)

lemma numberToString_small:
  "numberToString 0 = ''0''" "numberToString 5 = ''5''" "numberToString 120 = ''120''"
  "numberToString 10 = ''10''"
  by (simp_all add: numberToString_def Let_def natToString_small)

lemma client_json_initial:
  "jsonStringify [(''score'', 0), (''lives'', 5), (''timeLeft'', 120), (''combo'', 10), (''streak'', 0)]
   = ''{'' @ [CHR 0x22] @ ''score'' @ [CHR 0x22] @ '':0,'' @ [CHR 0x22] @ ''lives'' @ [CHR 0x22] @ '':5,'' @
     [CHR 0x22] @ ''timeLeft'' @ [CHR 0x22] @ '':120,'' @ [CHR 0x22] @ ''combo'' @ [CHR 0x22] @ '':10,'' @
     [CHR 0x22] @ ''streak'' @ [CHR 0x22] @ '':0}''"
  by (simp add: jsonStringify_def numberToString_small)

lemma client_fold_initial:
  "foldl hashStep 0 (''{'' @ [CHR 0x22] @ ''score'' @ [CHR 0x22] @ '':0,'' @ [CHR 0x22] @ ''lives'' @ [CHR 0x22] @ '':5,'' @
     [CHR 0x22] @ ''timeLeft'' @ [CHR 0x22] @ '':120,'' @ [CHR 0x22] @ ''combo'' @ [CHR 0x22] @ '':10,'' @
     [CHR 0x22] @ ''streak'' @ [CHR 0x22] @ '':0}'') = 3209285396"
  by (simp add: hashStep_def)

lemma client_hex_initial: "int32ToHex 3209285396 = ''-40b630ec''"
  by (simp add: int32ToHex_def natToString.simps digitChar_def)

lemma calculateStateHash_initial:
  "calculateStateHash (createInitialGameState now) = ''-40b630ec''"
proof -
  have "calculateStateHash (createInitialGameState now) =
        int32ToHex (foldl hashStep 0 (jsonStringify
          [(''score'', 0), (''lives'', 5), (''timeLeft'', 120), (''combo'', 10), (''streak'', 0)]))"
    by (simp add: calculateStateHash_def createInitialGameState_def Let_def INITIAL_LIVES_def
        GAME_DURATION_def)
  then show ?thesis
    by (simp only: client_json_initial client_fold_initial client_hex_initial)
qed

text \<open>The same with 119 seconds left: the client's hash reads \<open>timeLeft\<close>.\<close>

lemma natToString_119: "natToString 10 119 = ''119''"
  by (simp add: natToString.simps digitChar_def)

lemma numberToString_119: "numberToString 119 = ''119''"
  by (simp add: numberToString_def Let_def natToString_119)

lemma client_json_119:
  "jsonStringify [(''score'', 0), (''lives'', 5), (''timeLeft'', 119), (''combo'', 10), (''streak'', 0)]
   = ''{'' @ [CHR 0x22] @ ''score'' @ [CHR 0x22] @ '':0,'' @ [CHR 0x22] @ ''lives'' @ [CHR 0x22] @ '':5,'' @
     [CHR 0x22] @ ''timeLeft'' @ [CHR 0x22] @ '':119,'' @ [CHR 0x22] @ ''combo'' @ [CHR 0x22] @ '':10,'' @
     [CHR 0x22] @ ''streak'' @ [CHR 0x22] @ '':0}''"
  by (simp add: jsonStringify_def numberToString_small numberToString_119)

lemma client_fold_119:
  "foldl hashStep 0 (''{'' @ [CHR 0x22] @ ''score'' @ [CHR 0x22] @ '':0,'' @ [CHR 0x22] @ ''lives'' @ [CHR 0x22] @ '':5,'' @
     [CHR 0x22] @ ''timeLeft'' @ [CHR 0x22] @ '':119,'' @ [CHR 0x22] @ ''combo'' @ [CHR 0x22] @ '':10,'' @
     [CHR 0x22] @ ''streak'' @ [CHR 0x22] @ '':0}'') = 388466666"
  by (simp add: hashStep_def)

lemma client_hex_119: "int32ToHex 388466666 = ''172787ea''"
  by (simp add: int32ToHex_def natToString.simps digitChar_def)

lemma calculateStateHash_119:
  "calculateStateHash ((createInitialGameState now)\<lparr>timeLeft := 119\<rparr>) = ''172787ea''"
proof -
  have "calculateStateHash ((createInitialGameState now)\<lparr>timeLeft := 119\<rparr>) =
        int32ToHex (foldl hashStep 0 (jsonStringify
          [(''score'', 0), (''lives'', 5), (''timeLeft'', 119), (''combo'', 10), (''streak'', 0)]))"
    by (simp add: calculateStateHash_def createInitialGameState_def Let_def INITIAL_LIVES_def)
  then show ?thesis
    by (simp only: client_json_119 client_fold_119 client_hex_119)
qed

lemma generateStateHash_timeLeft:
  "generateStateHash (s\<lparr>timeLeft := t\<rparr>) n = generateStateHash s n"
  by (simp add: generateStateHash_def)

text \<open>
  Claim C2 says that the client-side and the server-side state hash are the same function
  over the same fields. In the code they are not, and can never agree. The client
  (\<open>GameStateManager.calculateStateHash\<close>) hashes the JSON of
  \<open>{score, lives, floor(timeLeft), floor(combo * 10), streak}\<close> with a 32-bit polynomial
  hash printed in base 16: at most 9 characters, \<open>-40b630ec\<close> at the initial state. The
  server (\<open>generateStateHash\<close>) hashes the JSON of
  \<open>{round(score), lives, round(combo * 100) / 100, streak, actionCount}\<close> with SHA-256
  and keeps the first 16 hexadecimal digits. So for every game state and action count the
  two hashes differ. The field sets differ as well: the server's hash does not read
  \<open>timeLeft\<close>, the client's does (\<open>172787ea\<close> with 119 seconds left) and has no action
  count.
\<close>

theorem state_hashes_never_agree:
  "calculateStateHash s \<noteq> generateStateHash s n \<and>
   length (calculateStateHash s) \<le> 9 \<and> length (generateStateHash s n) = 16 \<and>
   generateStateHash (s\<lparr>timeLeft := t\<rparr>) n = generateStateHash s n \<and>
   calculateStateHash (createInitialGameState now) = ''-40b630ec'' \<and>
   calculateStateHash ((createInitialGameState now)\<lparr>timeLeft := 119\<rparr>) = ''172787ea'' \<and>
   length (generateStateHash (createInitialGameState now) 0) = 16"
proof -
  have "length (calculateStateHash s) \<noteq> length (generateStateHash s n)"
    using calculateStateHash_length [of s] generateStateHash_length [of s n] by simp
  then have "calculateStateHash s \<noteq> generateStateHash s n" by auto
  then show ?thesis
    using calculateStateHash_length [of s] generateStateHash_length
      generateStateHash_timeLeft calculateStateHash_initial [of now]
      calculateStateHash_119 [of now]
    by simp
qed

end
